theory Spec2Isabelle
  imports Main
begin

section \<open>The random-play example of RLCard: \<open>random_example.py\<close>\<close>

text \<open>
  The script parses one command-line flag, builds an environment through the external
  library, seeds the global random-number sources, creates two random agents, registers
  them, runs one episode and prints parts of the result. The external library (the
  environment factory, the seeding utility, the agent constructor and the environment's
  methods) is a parameter of the model; the script's own control flow, its constants,
  its indexing of the result and the order of its calls are modelled as written.
\<close>

subsection \<open>Python values and exceptions\<close>

text \<open>
  The values the script handles are built-in Python data: \<open>None\<close>, integers, strings,
  lists, tuples and dictionaries. A dictionary is an association list from keys to values.
\<close>

datatype pyval =
    PNone
  | PInt int
  | PStr string
  | PList "pyval list"
  | PTuple "pyval list"
  | PDict "(pyval \<times> pyval) list"

text \<open>
  Exceptions are values. \<open>SystemExit\<close> is what the argument parser raises to end the
  process (status 0 after printing the help, status 2 after a usage error);
  \<open>LibraryError\<close> stands for any exception raised inside the external library.
\<close>

datatype exn =
    IndexError
  | KeyError
  | TypeError
  | ValueError
  | SystemExit int
  | LibraryError string

text \<open>
  Positional indexing of a sequence, \<open>xs[i]\<close>: a negative index counts from the end, an
  index out of range raises \<open>IndexError\<close>.
\<close>

definition seq_index :: "'a list \<Rightarrow> int \<Rightarrow> exn + 'a" where
  "seq_index xs i =
     (if i < 0 then
        (if - i \<le> int (length xs) then Inr (xs ! nat (int (length xs) + i))
         else Inl IndexError)
      else
        (if i < int (length xs) then Inr (xs ! nat i) else Inl IndexError))"

text \<open>
  \<open>v[i]\<close> for an integer \<open>i\<close>: lists, tuples and strings are indexed by position (a
  character of a string is a string of length one), a dictionary is looked up at the
  key \<open>i\<close>, and \<open>None\<close> and integers are not subscriptable.
\<close>

fun py_index :: "pyval \<Rightarrow> int \<Rightarrow> exn + pyval" where
  "py_index (PList xs) i = seq_index xs i"
| "py_index (PTuple xs) i = seq_index xs i"
| "py_index (PStr s) i =
     (case seq_index s i of Inl e \<Rightarrow> Inl e | Inr c \<Rightarrow> Inr (PStr [c]))"
| "py_index (PDict kvs) i =
     (case map_of kvs (PInt i) of None \<Rightarrow> Inl KeyError | Some v \<Rightarrow> Inr v)"
| "py_index PNone i = Inl TypeError"
| "py_index (PInt n) i = Inl TypeError"

text \<open>
  \<open>v[k]\<close> for a string \<open>k\<close>: a dictionary is looked up at the key \<open>k\<close> (a missing key
  raises \<open>KeyError\<close>); lists, tuples and strings accept only integer indices and raise
  \<open>TypeError\<close>, as do \<open>None\<close> and integers.
\<close>

fun py_item :: "pyval \<Rightarrow> string \<Rightarrow> exn + pyval" where
  "py_item (PDict kvs) k =
     (case map_of kvs (PStr k) of None \<Rightarrow> Inl KeyError | Some v \<Rightarrow> Inr v)"
| "py_item (PList xs) k = Inl TypeError"
| "py_item (PTuple xs) k = Inl TypeError"
| "py_item (PStr s) k = Inl TypeError"
| "py_item PNone k = Inl TypeError"
| "py_item (PInt n) k = Inl TypeError"

text \<open>\<open>len(v)\<close>: defined on the containers, \<open>TypeError\<close> on \<open>None\<close> and integers.\<close>

fun py_len :: "pyval \<Rightarrow> exn + nat" where
  "py_len (PList xs) = Inr (length xs)"
| "py_len (PTuple xs) = Inr (length xs)"
| "py_len (PStr s) = Inr (length s)"
| "py_len (PDict kvs) = Inr (length kvs)"
| "py_len PNone = Inl TypeError"
| "py_len (PInt n) = Inl TypeError"

text \<open>
  The items a value yields when iterated: the elements of a list or tuple, the
  characters of a string, the keys of a dictionary; \<open>None\<close> and integers are not
  iterable.
\<close>

fun py_iter :: "pyval \<Rightarrow> exn + pyval list" where
  "py_iter (PList xs) = Inr xs"
| "py_iter (PTuple xs) = Inr xs"
| "py_iter (PStr s) = Inr (map (\<lambda>c. PStr [c]) s)"
| "py_iter (PDict kvs) = Inr (map fst kvs)"
| "py_iter PNone = Inl TypeError"
| "py_iter (PInt n) = Inl TypeError"

text \<open>
  The assignment \<open>a, b = v\<close>: \<open>v\<close> is iterated and must yield exactly two items,
  otherwise \<open>ValueError\<close> is raised.
\<close>

definition unpack2 :: "pyval \<Rightarrow> exn + (pyval \<times> pyval)" where
  "unpack2 v =
     (case py_iter v of
        Inl e \<Rightarrow> Inl e
      | Inr [a, b] \<Rightarrow> Inr (a, b)
      | Inr _ \<Rightarrow> Inl ValueError)"

subsection \<open>The command line\<close>

text \<open>
  The script adds one argument to its parser:
  \<^verbatim>\<open>parser.add_argument('--env', type=str, default='leduc-holdem', choices=[...])\<close>.
\<close>

datatype arg_type = Str

record argument =
  arg_flag :: string
  arg_type :: arg_type
  arg_default :: string
  arg_choices :: "string list"

definition env_argument :: argument where
  "env_argument =
     \<lparr>arg_flag = ''--env'',
      arg_type = Str,
      arg_default = ''leduc-holdem'',
      arg_choices =
        [''blackjack'',
         ''leduc-holdem'',
         ''limit-holdem'',
         ''doudizhu'',
         ''mahjong'',
         ''no-limit-holdem'',
         ''uno'',
         ''gin-rummy'',
         ''bridge'']\<rparr>"

text \<open>The parser holds the arguments the script added, in order.\<close>

definition parser :: "argument list" where
  "parser = [env_argument]"

text \<open>
  A command line is the sequence of items the argument parser reads from it: an option
  with its value (\<open>--flag value\<close> or \<open>--flag=value\<close>), an option at the end of the
  line with its value missing, the help option that every parser has by default
  (\<open>-h\<close>, \<open>--help\<close>), and any other word. The flag of an item is the option string
  the parser resolved the word to (it accepts an unambiguous prefix such as \<open>--en\<close> for
  \<open>--env\<close>), or the word as written when it resolves to none.
\<close>

datatype cli_item =
    Opt string string
  | OptNoValue string
  | Help
  | Word string

text \<open>The parsed arguments: the namespace has the one attribute \<open>env\<close>.\<close>

record args =
  env :: string

fun find_argument :: "argument list \<Rightarrow> string \<Rightarrow> argument option" where
  "find_argument [] f = None"
| "find_argument (a # as) f = (if arg_flag a = f then Some a else find_argument as f)"

text \<open>
  The items are read from left to right. The help option ends the process with status 0.
  A known option whose value is missing, or is not among its choices, ends the process
  with status 2 at once. Items the parser does not know are collected, and reported
  (status 2) when the whole line has been read. The value of \<open>--env\<close> starts as the
  default and is replaced by each accepted occurrence.
\<close>

fun parse_items :: "argument list \<Rightarrow> string \<Rightarrow> string list \<Rightarrow> cli_item list \<Rightarrow> exn + args" where
  "parse_items p v extras [] =
     (if extras = [] then Inr \<lparr>env = v\<rparr> else Inl (SystemExit 2))"
| "parse_items p v extras (Help # rest) = Inl (SystemExit 0)"
| "parse_items p v extras (Opt f x # rest) =
     (case find_argument p f of
        None \<Rightarrow> parse_items p v (extras @ [f, x]) rest
      | Some a \<Rightarrow>
          if x \<in> set (arg_choices a) then parse_items p x extras rest
          else Inl (SystemExit 2))"
| "parse_items p v extras (OptNoValue f # rest) =
     (case find_argument p f of
        None \<Rightarrow> parse_items p v (extras @ [f]) rest
      | Some a \<Rightarrow> Inl (SystemExit 2))"
| "parse_items p v extras (Word t # rest) = parse_items p v (extras @ [t]) rest"

definition parse_args :: "cli_item list \<Rightarrow> exn + args" where
  "parse_args argv = parse_items parser (arg_default env_argument) [] argv"

subsection \<open>The external library\<close>

text \<open>
  The configuration mapping the script passes to the factory:
  \<^verbatim>\<open>{'seed': 42, 'num_players': 3}\<close>.
\<close>

type_synonym config = "(string \<times> pyval) list"

definition config :: config where
  "config = [(''seed'', PInt 42), (''num_players'', PInt 3)]"

text \<open>
  The library is a parameter. \<open>'g\<close> is the process-wide state its calls read and
  write (the global random-number generators), \<open>'e\<close> the state of an environment
  object, \<open>'a\<close> an agent instance. Every call may raise, and every call but the read of
  the attribute \<open>num_actions\<close> may read and change the process-wide state.
  \<open>set_agents\<close> changes the environment object; the model returns the changed object.
\<close>

record ('g, 'e, 'a) rlcard =
  lib_make :: "string \<Rightarrow> config \<Rightarrow> 'g \<Rightarrow> (exn + 'e) \<times> 'g"
  lib_set_seed :: "int \<Rightarrow> 'g \<Rightarrow> (exn + unit) \<times> 'g"
  env_num_actions :: "'e \<Rightarrow> pyval"
  new_RandomAgent :: "pyval \<Rightarrow> 'g \<Rightarrow> (exn + 'a) \<times> 'g"
  env_set_agents :: "'e \<Rightarrow> 'a list \<Rightarrow> 'g \<Rightarrow> (exn + 'e) \<times> 'g"
  env_run :: "'e \<Rightarrow> bool \<Rightarrow> 'g \<Rightarrow> (exn + pyval) \<times> 'g"

subsection \<open>The state of a run and its trace\<close>

text \<open>
  The trace lists, in order, every call the script makes into the library, with its
  arguments and its outcome, and every value the script prints (\<open>Print\<close> for
  \<open>print\<close>, \<open>PPrint\<close> for \<open>pprint.pprint\<close>).
\<close>

datatype ('e, 'a) event =
    is_Make: Make string config "exn + 'e"
  | is_SetSeed: SetSeed int "exn + unit"
  | is_NewRandomAgent: NewRandomAgent pyval "exn + 'a"
  | is_SetAgents: SetAgents 'e "'a list" "exn + 'e"
  | is_Run: Run 'e bool "exn + pyval"
  | is_Print: Print pyval
  | is_PPrint: PPrint pyval

record ('g, 'e, 'a) world =
  globals :: 'g
  trace :: "('e, 'a) event list"

definition start :: "'g \<Rightarrow> ('g, 'e, 'a) world" where
  "start g = \<lparr>globals = g, trace = []\<rparr>"

text \<open>Sequencing: an exception ends the computation and keeps the state reached.\<close>

definition and_then ::
  "('s \<Rightarrow> (exn + 'x) \<times> 's) \<Rightarrow> ('x \<Rightarrow> 's \<Rightarrow> (exn + 'y) \<times> 's) \<Rightarrow> 's \<Rightarrow> (exn + 'y) \<times> 's" where
  "and_then m f s = (case m s of (Inl e, s') \<Rightarrow> (Inl e, s') | (Inr x, s') \<Rightarrow> f x s')"

text \<open>A library call: run on the process-wide state, and recorded with its outcome.\<close>

definition call ::
  "('g \<Rightarrow> (exn + 'x) \<times> 'g) \<Rightarrow> ((exn + 'x) \<Rightarrow> ('e, 'a) event) \<Rightarrow>
   ('g, 'e, 'a) world \<Rightarrow> (exn + 'x) \<times> ('g, 'e, 'a) world" where
  "call f ev w =
     (case f (globals w) of (r, g) \<Rightarrow> (r, \<lparr>globals = g, trace = trace w @ [ev r]\<rparr>))"

text \<open>An expression of the script itself: evaluated without touching the state.\<close>

definition expr :: "exn + 'x \<Rightarrow> 's \<Rightarrow> (exn + 'x) \<times> 's" where
  "expr r s = (r, s)"

text \<open>Printing: appends to the trace and never raises.\<close>

definition emit :: "('e, 'a) event \<Rightarrow> ('g, 'e, 'a) world \<Rightarrow> (exn + unit) \<times> ('g, 'e, 'a) world" where
  "emit ev w = (Inr (), \<lparr>globals = globals w, trace = trace w @ [ev]\<rparr>)"

subsection \<open>The driver\<close>

text \<open>The function \<open>run(args)\<close> of the script, statement by statement.\<close>

definition run ::
  "('g, 'e, 'a) rlcard \<Rightarrow> args \<Rightarrow> ('g, 'e, 'a) world \<Rightarrow> (exn + unit) \<times> ('g, 'e, 'a) world" where
  "run L args =
     and_then (call (lib_make L (env args) config) (Make (env args) config)) (\<lambda>env0.
     and_then (call (lib_set_seed L 42) (SetSeed 42)) (\<lambda>_.
     and_then (call (new_RandomAgent L (env_num_actions L env0))
                 (NewRandomAgent (env_num_actions L env0))) (\<lambda>agent1.
     and_then (call (new_RandomAgent L (env_num_actions L env0))
                 (NewRandomAgent (env_num_actions L env0))) (\<lambda>agent2.
     and_then (call (env_set_agents L env0 [agent1, agent2])
                 (SetAgents env0 [agent1, agent2])) (\<lambda>env1.
     and_then (call (env_run L env1 False) (Run env1 False)) (\<lambda>result.
     and_then (expr (unpack2 result)) (\<lambda>(trajectories, player_wins).
     and_then (emit (Print (PStr (CHR 0x0A # ''Trajectories:'')))) (\<lambda>_.
     and_then (emit (Print trajectories)) (\<lambda>_.
     and_then (emit (Print (PStr (CHR 0x0A # ''Sample raw observation:'')))) (\<lambda>_.
     and_then (expr (py_index trajectories 0)) (\<lambda>t0.
     and_then (expr (py_index t0 0)) (\<lambda>ev0.
     and_then (expr (py_item ev0 ''raw_obs'')) (\<lambda>raw_obs.
     and_then (emit (PPrint raw_obs)) (\<lambda>_.
     and_then (emit (Print (PStr (CHR 0x0A # ''Sample raw legal_actions:'')))) (\<lambda>_.
     and_then (expr (py_index trajectories 0)) (\<lambda>t0.
     and_then (expr (py_index t0 0)) (\<lambda>ev0.
     and_then (expr (py_item ev0 ''raw_legal_actions'')) (\<lambda>raw_legal_actions.
     and_then (emit (PPrint raw_legal_actions)) (\<lambda>_.
     and_then (expr (py_index trajectories 0)) (\<lambda>t0.
     and_then (expr (py_len t0)) (\<lambda>n0.
     and_then (emit (Print (PInt (int n0)))) (\<lambda>_.
     and_then (expr (py_index trajectories 1)) (\<lambda>t1.
     and_then (expr (py_len t1)) (\<lambda>n1.
     emit (Print (PInt (int n1)))))))))))))))))))))))))))"

text \<open>
  The script's main block: the arguments are parsed first, and \<open>run\<close> is called with
  them only when parsing returns.
\<close>

definition main ::
  "('g, 'e, 'a) rlcard \<Rightarrow> cli_item list \<Rightarrow> 'g \<Rightarrow> (exn + unit) \<times> ('g, 'e, 'a) world" where
  "main L argv g =
     (case parse_args argv of
        Inl e \<Rightarrow> (Inl e, start g)
      | Inr args \<Rightarrow> run L args (start g))"

subsection \<open>Reading a trace\<close>

text \<open>The calls of the factory in a trace: the name and the configuration of each.\<close>

fun factory_calls :: "('e, 'a) event list \<Rightarrow> (string \<times> config) list" where
  "factory_calls [] = []"
| "factory_calls (Make n c r # evs) = (n, c) # factory_calls evs"
| "factory_calls (ev # evs) = factory_calls evs"

text \<open>The seeds passed to the seeding utility.\<close>

fun seed_calls :: "('e, 'a) event list \<Rightarrow> int list" where
  "seed_calls [] = []"
| "seed_calls (SetSeed s r # evs) = s # seed_calls evs"
| "seed_calls (ev # evs) = seed_calls evs"

text \<open>The agent constructions: the action count passed and the outcome of each.\<close>

fun constructed :: "('e, 'a) event list \<Rightarrow> (pyval \<times> (exn + 'a)) list" where
  "constructed [] = []"
| "constructed (NewRandomAgent n r # evs) = (n, r) # constructed evs"
| "constructed (ev # evs) = constructed evs"

text \<open>The registrations: the environment and the agent list of each \<open>set_agents\<close> call.\<close>

fun registered :: "('e, 'a) event list \<Rightarrow> ('e \<times> 'a list) list" where
  "registered [] = []"
| "registered (SetAgents e ags r # evs) = (e, ags) # registered evs"
| "registered (ev # evs) = registered evs"




text \<open>An event that is output of the script, not a call into the library.\<close>

definition is_output :: "('e, 'a) event \<Rightarrow> bool" where
  "is_output ev \<longleftrightarrow> is_Print ev \<or> is_PPrint ev"

text \<open>
  A computation that only appends to the trace, and only events with the property
  \<open>P\<close>.
\<close>

definition emits_only ::
  "(('e, 'a) event \<Rightarrow> bool) \<Rightarrow> (('g, 'e, 'a) world \<Rightarrow> (exn + 'x) \<times> ('g, 'e, 'a) world) \<Rightarrow> bool" where
  "emits_only P m \<longleftrightarrow> (\<forall>w. \<exists>t. trace (snd (m w)) = trace w @ t \<and> list_all P t)"

subsection \<open>A small library instance\<close>

text \<open>
  A library on which the theorems below are exercised. Its process-wide state is one
  integer, which seeding overwrites and every episode reads and advances; the factory
  knows the nine games only; the episode's observation depends on the process-wide
  state.
\<close>

definition toy_rlcard :: "(int, string \<times> nat, pyval) rlcard" where
  "toy_rlcard =
     \<lparr>lib_make = (\<lambda>n c g.
        (if n \<in> set (arg_choices env_argument) then Inr (n, 0)
         else Inl (LibraryError ''unknown environment''), g)),
      lib_set_seed = (\<lambda>s g. (Inr (), s)),
      env_num_actions = (\<lambda>e. PInt 4),
      new_RandomAgent = (\<lambda>n g. (Inr n, g)),
      env_set_agents = (\<lambda>e ags g. (Inr (fst e, length ags), g)),
      env_run = (\<lambda>e t g.
        (Inr (PTuple
           [PList
              [PList
                 [PDict
                    [(PStr ''raw_obs'', PInt (g mod 5)),
                     (PStr ''raw_legal_actions'', PList [PInt 0, PInt 1])],
                  PInt (g mod 2)],
               PList []],
            PList [PInt 1, PInt (- 1)]]), g + 1))\<rparr>"

section \<open>Properties\<close>

subsection \<open>Sequencing and traces\<close>

lemma and_then_Inr:
  "and_then m f s = (Inr y, s'') \<longleftrightarrow> (\<exists>x s'. m s = (Inr x, s') \<and> f x s' = (Inr y, s''))"
  by (auto simp: and_then_def split: prod.splits sum.splits)

lemma call_Inr:
  "call f ev w = (Inr x, w') \<longleftrightarrow>
     (\<exists>g. f (globals w) = (Inr x, g) \<and> w' = \<lparr>globals = g, trace = trace w @ [ev (Inr x)]\<rparr>)"
  by (auto simp: call_def split: prod.splits)

lemma expr_Inr: "expr r s = (Inr x, s') \<longleftrightarrow> r = Inr x \<and> s' = s"
  by (auto simp: expr_def)

lemma emit_Inr:
  "emit ev w = (Inr u, w') \<longleftrightarrow> w' = \<lparr>globals = globals w, trace = trace w @ [ev]\<rparr>"
  by (auto simp: emit_def)

lemma and_then_call:
  "and_then (call f ev) k w =
     (case f (globals w) of
        (Inl e, g) \<Rightarrow> (Inl e, \<lparr>globals = g, trace = trace w @ [ev (Inl e)]\<rparr>)
      | (Inr x, g) \<Rightarrow> k x \<lparr>globals = g, trace = trace w @ [ev (Inr x)]\<rparr>)"
  by (simp add: and_then_def call_def split: prod.splits sum.splits)

lemma emits_only_call: "(\<And>r. P (ev r)) \<Longrightarrow> emits_only P (call f ev)"
  by (simp add: emits_only_def call_def split: prod.splits)

lemma emits_only_expr: "emits_only P (expr r)"
  by (simp add: emits_only_def expr_def)

lemma emits_only_emit: "P ev \<Longrightarrow> emits_only P (emit ev)"
  by (simp add: emits_only_def emit_def)

lemma emits_only_and_then:
  assumes m: "emits_only P m" and f: "\<And>x. emits_only P (f x)"
  shows "emits_only P (and_then m f)"
  unfolding emits_only_def
proof
  fix w
  from m obtain t where t: "trace (snd (m w)) = trace w @ t" "list_all P t"
    unfolding emits_only_def by blast
  show "\<exists>t. trace (snd (and_then m f w)) = trace w @ t \<and> list_all P t"
  proof (cases "m w")
    case (Pair r w1)
    show ?thesis
    proof (cases r)
      case (Inl e)
      with Pair t show ?thesis by (auto simp: and_then_def)
    next
      case (Inr x)
      from f obtain t' where t': "trace (snd (f x w1)) = trace w1 @ t'" "list_all P t'"
        unfolding emits_only_def by blast
      with Pair Inr t show ?thesis by (auto simp: and_then_def)
    qed
  qed
qed

lemma emits_only_split:
  "(\<And>a b. emits_only P (f a b)) \<Longrightarrow> emits_only P (case p of (a, b) \<Rightarrow> f a b)"
  by (cases p) simp

lemma emits_onlyD:
  "emits_only P m \<Longrightarrow> \<exists>t. trace (snd (m w)) = trace w @ t \<and> list_all P t"
  by (simp add: emits_only_def)

lemma run_split:
  "\<exists>K. (\<forall>result. emits_only is_output (K result)) \<and>
     run L a =
       and_then (call (lib_make L (env a) config) (Make (env a) config)) (\<lambda>env0.
       and_then (call (lib_set_seed L 42) (SetSeed 42)) (\<lambda>_.
       and_then (call (new_RandomAgent L (env_num_actions L env0))
                   (NewRandomAgent (env_num_actions L env0))) (\<lambda>agent1.
       and_then (call (new_RandomAgent L (env_num_actions L env0))
                   (NewRandomAgent (env_num_actions L env0))) (\<lambda>agent2.
       and_then (call (env_set_agents L env0 [agent1, agent2])
                   (SetAgents env0 [agent1, agent2])) (\<lambda>env1.
       and_then (call (env_run L env1 False) (Run env1 False)) K)))))"
  unfolding run_def
  apply (rule exI)
  apply (rule conjI)
   prefer 2
   apply (rule refl)
  apply (intro allI emits_only_and_then emits_only_expr emits_only_emit emits_only_split)
  apply (simp_all add: is_output_def)
  done

lemma run_cases:
  obtains
    (make_raises) e g1 where
      "lib_make L (env a) config (globals w) = (Inl e, g1)"
      "run L a w = (Inl e, \<lparr>globals = g1, trace = trace w @ [Make (env a) config (Inl e)]\<rparr>)"
  | (set_seed_raises) env0 g1 e g2 where
      "lib_make L (env a) config (globals w) = (Inr env0, g1)"
      "lib_set_seed L 42 g1 = (Inl e, g2)"
      "run L a w = (Inl e, \<lparr>globals = g2, trace = trace w @
         [Make (env a) config (Inr env0), SetSeed 42 (Inl e)]\<rparr>)"
  | (agent1_raises) env0 g1 g2 e g3 where
      "lib_make L (env a) config (globals w) = (Inr env0, g1)"
      "lib_set_seed L 42 g1 = (Inr (), g2)"
      "new_RandomAgent L (env_num_actions L env0) g2 = (Inl e, g3)"
      "run L a w = (Inl e, \<lparr>globals = g3, trace = trace w @
         [Make (env a) config (Inr env0), SetSeed 42 (Inr ()),
          NewRandomAgent (env_num_actions L env0) (Inl e)]\<rparr>)"
  | (agent2_raises) env0 g1 g2 agent1 g3 e g4 where
      "lib_make L (env a) config (globals w) = (Inr env0, g1)"
      "lib_set_seed L 42 g1 = (Inr (), g2)"
      "new_RandomAgent L (env_num_actions L env0) g2 = (Inr agent1, g3)"
      "new_RandomAgent L (env_num_actions L env0) g3 = (Inl e, g4)"
      "run L a w = (Inl e, \<lparr>globals = g4, trace = trace w @
         [Make (env a) config (Inr env0), SetSeed 42 (Inr ()),
          NewRandomAgent (env_num_actions L env0) (Inr agent1),
          NewRandomAgent (env_num_actions L env0) (Inl e)]\<rparr>)"
  | (set_agents_raises) env0 g1 g2 agent1 g3 agent2 g4 e g5 where
      "lib_make L (env a) config (globals w) = (Inr env0, g1)"
      "lib_set_seed L 42 g1 = (Inr (), g2)"
      "new_RandomAgent L (env_num_actions L env0) g2 = (Inr agent1, g3)"
      "new_RandomAgent L (env_num_actions L env0) g3 = (Inr agent2, g4)"
      "env_set_agents L env0 [agent1, agent2] g4 = (Inl e, g5)"
      "run L a w = (Inl e, \<lparr>globals = g5, trace = trace w @
         [Make (env a) config (Inr env0), SetSeed 42 (Inr ()),
          NewRandomAgent (env_num_actions L env0) (Inr agent1),
          NewRandomAgent (env_num_actions L env0) (Inr agent2),
          SetAgents env0 [agent1, agent2] (Inl e)]\<rparr>)"
  | (run_called) env0 g1 g2 agent1 g3 agent2 g4 env1 g5 r g6 out where
      "lib_make L (env a) config (globals w) = (Inr env0, g1)"
      "lib_set_seed L 42 g1 = (Inr (), g2)"
      "new_RandomAgent L (env_num_actions L env0) g2 = (Inr agent1, g3)"
      "new_RandomAgent L (env_num_actions L env0) g3 = (Inr agent2, g4)"
      "env_set_agents L env0 [agent1, agent2] g4 = (Inr env1, g5)"
      "env_run L env1 False g5 = (r, g6)"
      "trace (snd (run L a w)) = trace w @
         [Make (env a) config (Inr env0), SetSeed 42 (Inr ()),
          NewRandomAgent (env_num_actions L env0) (Inr agent1),
          NewRandomAgent (env_num_actions L env0) (Inr agent2),
          SetAgents env0 [agent1, agent2] (Inr env1),
          Run env1 False r] @ out"
      "list_all is_output out"
proof -
  obtain K where K: "\<And>result. emits_only is_output (K result)"
    and run: "run L a =
       and_then (call (lib_make L (env a) config) (Make (env a) config)) (\<lambda>env0.
       and_then (call (lib_set_seed L 42) (SetSeed 42)) (\<lambda>_.
       and_then (call (new_RandomAgent L (env_num_actions L env0))
                   (NewRandomAgent (env_num_actions L env0))) (\<lambda>agent1.
       and_then (call (new_RandomAgent L (env_num_actions L env0))
                   (NewRandomAgent (env_num_actions L env0))) (\<lambda>agent2.
       and_then (call (env_set_agents L env0 [agent1, agent2])
                   (SetAgents env0 [agent1, agent2])) (\<lambda>env1.
       and_then (call (env_run L env1 False) (Run env1 False)) K)))))"
    using run_split [of L a] by blast
  obtain r1 g1 where m: "lib_make L (env a) config (globals w) = (r1, g1)" by force
  show thesis
  proof (cases r1)
    case (Inl e)
    with m show thesis by (intro make_raises [of e g1]) (simp_all add: run and_then_call)
  next
    case env0: (Inr env0)
    obtain r2 g2 where s: "lib_set_seed L 42 g1 = (r2, g2)" by force
    show thesis
    proof (cases r2)
      case (Inl e)
      with m env0 s show thesis
        by (intro set_seed_raises [of env0 g1 e g2]) (simp_all add: run and_then_call)
    next
      case u: (Inr u)
      obtain r3 g3 where a1: "new_RandomAgent L (env_num_actions L env0) g2 = (r3, g3)" by force
      show thesis
      proof (cases r3)
        case (Inl e)
        with m env0 s u a1 show thesis
          by (intro agent1_raises [of env0 g1 g2 e g3]) (simp_all add: run and_then_call)
      next
        case agent1: (Inr agent1)
        obtain r4 g4 where a2: "new_RandomAgent L (env_num_actions L env0) g3 = (r4, g4)" by force
        show thesis
        proof (cases r4)
          case (Inl e)
          with m env0 s u a1 agent1 a2 show thesis
            by (intro agent2_raises [of env0 g1 g2 agent1 g3 e g4])
               (simp_all add: run and_then_call)
        next
          case agent2: (Inr agent2)
          obtain r5 g5 where sa: "env_set_agents L env0 [agent1, agent2] g4 = (r5, g5)" by force
          show thesis
          proof (cases r5)
            case (Inl e)
            with m env0 s u a1 agent1 a2 agent2 sa show thesis
              by (intro set_agents_raises [of env0 g1 g2 agent1 g3 agent2 g4 e g5])
                 (simp_all add: run and_then_call)
          next
            case env1: (Inr env1)
            obtain r6 g6 where r: "env_run L env1 False g5 = (r6, g6)" by force
            let ?w6 = "\<lparr>globals = g6, trace = trace w @
               [Make (env a) config (Inr env0), SetSeed 42 (Inr ()),
                NewRandomAgent (env_num_actions L env0) (Inr agent1),
                NewRandomAgent (env_num_actions L env0) (Inr agent2),
                SetAgents env0 [agent1, agent2] (Inr env1),
                Run env1 False r6]\<rparr>"
            have "\<exists>out. trace (snd (run L a w)) = trace ?w6 @ out \<and> list_all is_output out"
            proof (cases r6)
              case (Inl e)
              with m env0 s u a1 agent1 a2 agent2 sa env1 r show ?thesis
                by (simp add: run and_then_call)
            next
              case (Inr result)
              from emits_onlyD [OF K, of result ?w6]
              obtain out where "trace (snd (K result ?w6)) = trace ?w6 @ out" "list_all is_output out"
                by blast
              with Inr m env0 s u a1 agent1 a2 agent2 sa env1 r show ?thesis
                by (simp add: run and_then_call)
            qed
            then obtain out where "trace (snd (run L a w)) = trace ?w6 @ out" "list_all is_output out"
              by blast
            with m env0 s u a1 agent1 a2 agent2 sa env1 r show thesis
              by (intro run_called [of env0 g1 g2 agent1 g3 agent2 g4 env1 g5 r6 g6 out]) simp_all
          qed
        qed
      qed
    qed
  qed
qed

text \<open>A run that returns normally made every call and printed every line.\<close>

lemma run_success:
  assumes "run L a w = (Inr u, w')"
  shows "\<exists>env0 g1 g2 agent1 g3 agent2 g4 env1 g5 result g6 trajectories player_wins
            t0 ev0 raw_obs raw_legal_actions n0 t1 n1.
     lib_make L (env a) config (globals w) = (Inr env0, g1) \<and>
     lib_set_seed L 42 g1 = (Inr (), g2) \<and>
     new_RandomAgent L (env_num_actions L env0) g2 = (Inr agent1, g3) \<and>
     new_RandomAgent L (env_num_actions L env0) g3 = (Inr agent2, g4) \<and>
     env_set_agents L env0 [agent1, agent2] g4 = (Inr env1, g5) \<and>
     env_run L env1 False g5 = (Inr result, g6) \<and>
     unpack2 result = Inr (trajectories, player_wins) \<and>
     py_index trajectories 0 = Inr t0 \<and>
     py_index t0 0 = Inr ev0 \<and>
     py_item ev0 ''raw_obs'' = Inr raw_obs \<and>
     py_item ev0 ''raw_legal_actions'' = Inr raw_legal_actions \<and>
     py_len t0 = Inr n0 \<and>
     py_index trajectories 1 = Inr t1 \<and>
     py_len t1 = Inr n1 \<and>
     globals w' = g6 \<and>
     trace w' = trace w @
       [Make (env a) config (Inr env0),
        SetSeed 42 (Inr ()),
        NewRandomAgent (env_num_actions L env0) (Inr agent1),
        NewRandomAgent (env_num_actions L env0) (Inr agent2),
        SetAgents env0 [agent1, agent2] (Inr env1),
        Run env1 False (Inr result),
        Print (PStr (CHR 0x0A # ''Trajectories:'')),
        Print trajectories,
        Print (PStr (CHR 0x0A # ''Sample raw observation:'')),
        PPrint raw_obs,
        Print (PStr (CHR 0x0A # ''Sample raw legal_actions:'')),
        PPrint raw_legal_actions,
        Print (PInt (int n0)),
        Print (PInt (int n1))]"
  using assms
  unfolding run_def and_then_Inr call_Inr expr_Inr emit_Inr
  by (clarsimp simp: and_then_Inr call_Inr expr_Inr emit_Inr split: prod.splits)

text \<open>
  Conversely, when every library call returns and the indexing of the result succeeds,
  the run returns normally.
\<close>

lemma run_completes:
  assumes "lib_make L (env a) config (globals w) = (Inr env0, g1)"
    and "lib_set_seed L 42 g1 = (Inr (), g2)"
    and "new_RandomAgent L (env_num_actions L env0) g2 = (Inr agent1, g3)"
    and "new_RandomAgent L (env_num_actions L env0) g3 = (Inr agent2, g4)"
    and "env_set_agents L env0 [agent1, agent2] g4 = (Inr env1, g5)"
    and "env_run L env1 False g5 = (Inr result, g6)"
    and "unpack2 result = Inr (trajectories, player_wins)"
    and "py_index trajectories 0 = Inr t0"
    and "py_index t0 0 = Inr ev0"
    and "py_item ev0 ''raw_obs'' = Inr raw_obs"
    and "py_item ev0 ''raw_legal_actions'' = Inr raw_legal_actions"
    and "py_len t0 = Inr n0"
    and "py_index trajectories 1 = Inr t1"
    and "py_len t1 = Inr n1"
  shows "fst (run L a w) = Inr ()"
  using assms by (simp add: run_def and_then_def call_def expr_def emit_def)

subsection \<open>What a trace holds\<close>

lemma factory_calls_append [simp]:
  "factory_calls (xs @ ys) = factory_calls xs @ factory_calls ys"
  by (induction xs rule: factory_calls.induct) simp_all

lemma seed_calls_append [simp]: "seed_calls (xs @ ys) = seed_calls xs @ seed_calls ys"
  by (induction xs rule: seed_calls.induct) simp_all

lemma constructed_append [simp]: "constructed (xs @ ys) = constructed xs @ constructed ys"
  by (induction xs rule: constructed.induct) simp_all

lemma registered_append [simp]: "registered (xs @ ys) = registered xs @ registered ys"
  by (induction xs rule: registered.induct) simp_all

lemma factory_calls_output: "list_all is_output out \<Longrightarrow> factory_calls out = []"
  by (induction out rule: factory_calls.induct) (simp_all add: is_output_def)

lemma seed_calls_output: "list_all is_output out \<Longrightarrow> seed_calls out = []"
  by (induction out rule: seed_calls.induct) (simp_all add: is_output_def)

lemma constructed_output: "list_all is_output out \<Longrightarrow> constructed out = []"
  by (induction out rule: constructed.induct) (simp_all add: is_output_def)


lemma run_factory_calls:
  "factory_calls (trace (snd (run L a w))) = factory_calls (trace w) @ [(env a, config)]"
  by (rule run_cases [where L = L and a = a and w = w]) (simp_all add: factory_calls_output)

lemma run_seed_calls:
  "seed_calls (trace (snd (run L a w))) =
     seed_calls (trace w) @
       (case fst (lib_make L (env a) config (globals w)) of Inl e \<Rightarrow> [] | Inr env0 \<Rightarrow> [42])"
  by (rule run_cases [where L = L and a = a and w = w]) (simp_all add: seed_calls_output)

lemma run_constructed_bound: "length (constructed (trace (snd (run L a (start g))))) \<le> 2"
  by (rule run_cases [where L = L and a = a and w = "start g"])
     (simp_all add: start_def constructed_output)

subsection \<open>Indexing Python values\<close>

lemma seq_index_Inr:
  "seq_index xs i = Inr x \<Longrightarrow> 0 \<le> i \<Longrightarrow> nat i < length xs \<and> x = xs ! nat i"
  by (auto simp: seq_index_def split: if_splits)

lemma map_of_two_keys:
  "map_of kvs k = Some v \<Longrightarrow> map_of kvs k' = Some v' \<Longrightarrow> k \<noteq> k' \<Longrightarrow> 2 \<le> length kvs"
proof (induction kvs)
  case Nil
  then show ?case by simp
next
  case (Cons p kvs)
  then have "kvs \<noteq> []" by (cases p) (auto split: if_splits)
  then show ?case by (cases kvs) simp_all
qed

lemma py_index_two:
  assumes "py_index t 0 = Inr t0" and "py_index t 1 = Inr t1"
  shows "\<exists>n. py_len t = Inr n \<and> 2 \<le> n"
proof (cases t)
  case (PDict kvs)
  with assms have "map_of kvs (PInt 0) = Some t0" "map_of kvs (PInt 1) = Some t1"
    by (auto split: option.splits)
  then have "2 \<le> length kvs" by (rule map_of_two_keys) simp
  with PDict show ?thesis by simp
qed (use assms in \<open>auto dest!: seq_index_Inr split: sum.splits\<close>)

lemma py_index_nonempty:
  assumes "py_index t 0 = Inr x"
  shows "\<exists>n. py_len t = Inr n \<and> 1 \<le> n"
proof (cases t)
  case (PDict kvs)
  with assms have "kvs \<noteq> []" by (auto split: option.splits)
  with PDict show ?thesis by (cases kvs) simp_all
qed (use assms in \<open>auto simp: Suc_le_eq dest!: seq_index_Inr split: sum.splits\<close>)

lemma py_item_Inr:
  "py_item v k = Inr x \<Longrightarrow> \<exists>kvs. v = PDict kvs \<and> map_of kvs (PStr k) = Some x"
  by (cases v) (auto split: option.splits)

subsection \<open>The argument parser\<close>

lemma parse_args_env:
  "parse_args [Opt f x] =
     (if f = ''--env'' \<and> x \<in> set (arg_choices env_argument) then Inr \<lparr>env = x\<rparr>
      else Inl (SystemExit 2))"
  by (simp add: parse_args_def parser_def env_argument_def)

lemma parse_args_default: "parse_args [] = Inr \<lparr>env = ''leduc-holdem''\<rparr>"
  by (simp add: parse_args_def parser_def env_argument_def)

lemma parse_items_invalid:
  "Opt f x \<in> set items \<Longrightarrow> find_argument p f = Some a \<Longrightarrow> x \<notin> set (arg_choices a) \<Longrightarrow>
     \<exists>code. parse_items p v extras items = Inl (SystemExit code)"
  by (induction p v extras items rule: parse_items.induct) (auto split: option.splits)

lemma parse_items_closed:
  "parse_items p v extras items = Inr a \<Longrightarrow> v \<in> S \<Longrightarrow>
     (\<And>f arg. find_argument p f = Some arg \<Longrightarrow> set (arg_choices arg) \<subseteq> S) \<Longrightarrow> env a \<in> S"
  by (induction p v extras items rule: parse_items.induct)
     (auto split: option.splits if_splits)

lemma parse_args_closed:
  assumes "parse_args argv = Inr a"
  shows "env a \<in> set (arg_choices env_argument)"
proof -
  have "find_argument parser f = Some arg \<Longrightarrow> arg = env_argument" for f arg
    by (simp add: parser_def split: if_splits)
  moreover have "arg_default env_argument \<in> set (arg_choices env_argument)"
    by (simp add: env_argument_def)
  ultimately show ?thesis
    using assms parse_items_closed [of parser _ "[]" argv a "set (arg_choices env_argument)"]
    unfolding parse_args_def by blast
qed

subsection \<open>Seeding\<close>

text \<open>
  Two steps in a row, the second of which overwrites the process-wide state: whatever
  follows them sees the same state, whichever state the first step started from, as long
  as the outcome of the first step does not depend on it.
\<close>

lemma seeded_after_call:
  assumes "fst (f g) = fst (f g')" and "\<And>x h h'. s x h = s x h'"
  shows "fst (and_then (call f ev) (\<lambda>x. and_then (call (s x) (ev2 x)) (k x))
                \<lparr>globals = g, trace = t\<rparr>) =
         fst (and_then (call f ev) (\<lambda>x. and_then (call (s x) (ev2 x)) (k x))
                \<lparr>globals = g', trace = t\<rparr>) \<and>
         trace (snd (and_then (call f ev) (\<lambda>x. and_then (call (s x) (ev2 x)) (k x))
                \<lparr>globals = g, trace = t\<rparr>)) =
         trace (snd (and_then (call f ev) (\<lambda>x. and_then (call (s x) (ev2 x)) (k x))
                \<lparr>globals = g', trace = t\<rparr>))"
proof -
  obtain r g1 where m: "f g = (r, g1)" by force
  obtain r' g1' where m': "f g' = (r', g1')" by force
  from assms(1) m m' have r: "r' = r" by simp
  show ?thesis
  proof (cases r)
    case (Inl e)
    with m m' r show ?thesis by (simp add: and_then_call)
  next
    case (Inr x)
    have "s x g1 = s x g1'" by (rule assms(2))
    with Inr m m' r show ?thesis
      by (simp add: and_then_call split: prod.splits sum.splits)
  qed
qed

text \<open>
  The episode of the small library instance reads the process-wide state: without the
  seeding call its result would differ from one starting state to another.
\<close>

lemma toy_episode_reads_globals:
  "fst (env_run toy_rlcard e False 0) \<noteq> fst (env_run toy_rlcard e False 7)"
  by (simp add: toy_rlcard_def)

section \<open>The claims of the specification\<close>

text \<open>
  Claim C1. Two executions of the driver with the same environment name print the same
  and get the same result from the episode, whatever state the global random-number
  sources start in. The two facts about the library this rests on are its seeding
  contract: the factory, given the name and the configuration (which carries the seed),
  returns the same environment whatever the global state is, and the seeding utility
  called with 42 leaves the global state the same whatever it was before. The trace
  compared holds the outcome of every library call (so the value returned by the one
  \<open>env.run\<close> call) and every value printed.
\<close>

theorem run_deterministic:
  assumes factory: "\<forall>g g'. fst (lib_make L (env a) config g) = fst (lib_make L (env a) config g')"
    and seeding: "\<forall>g g'. lib_set_seed L 42 g = lib_set_seed L 42 g'"
  shows "fst (run L a (start g)) = fst (run L a (start g')) \<and>
         trace (snd (run L a (start g))) = trace (snd (run L a (start g')))"
  unfolding run_def start_def
  by (rule seeded_after_call) (use assms in auto)

theorem run_deterministic_witness:
  "fst (run toy_rlcard \<lparr>env = ''uno''\<rparr> (start 0)) =
   fst (run toy_rlcard \<lparr>env = ''uno''\<rparr> (start 7)) \<and>
   trace (snd (run toy_rlcard \<lparr>env = ''uno''\<rparr> (start 0))) =
   trace (snd (run toy_rlcard \<lparr>env = ''uno''\<rparr> (start 7)))"
  using run_deterministic [of toy_rlcard "\<lparr>env = ''uno''\<rparr>" 0 7]
  by (simp add: toy_rlcard_def)




text \<open>
  Claim C4. A command line with an occurrence of \<open>--env\<close> whose value is not one of
  the nine names ends the process inside argument parsing, with \<open>SystemExit\<close>: the
  trace is empty, so neither the factory nor any other statement of the driver has run,
  and the process-wide state is untouched.
\<close>

theorem invalid_env_exits_before_factory:
  assumes "Opt ''--env'' x \<in> set argv" and "x \<notin> set (arg_choices env_argument)"
  shows "\<exists>code. fst (main L argv g) = Inl (SystemExit code) \<and>
           trace (snd (main L argv g)) = [] \<and> globals (snd (main L argv g)) = g"
proof -
  have "find_argument parser ''--env'' = Some env_argument"
    by (simp add: parser_def env_argument_def)
  with assms obtain code where
    "parse_items parser (arg_default env_argument) [] argv = Inl (SystemExit code)"
    using parse_items_invalid by blast
  then show ?thesis by (simp add: main_def parse_args_def start_def)
qed

theorem invalid_env_exits_before_factory_witness:
  "\<exists>code. fst (main toy_rlcard [Opt ''--env'' ''poker''] 7) = Inl (SystemExit code) \<and>
     trace (snd (main toy_rlcard [Opt ''--env'' ''poker''] 7)) = [] \<and>
     globals (snd (main toy_rlcard [Opt ''--env'' ''poker''] 7)) = 7"
  using invalid_env_exits_before_factory [of "''poker''" "[Opt ''--env'' ''poker'']" toy_rlcard 7]
  by (simp add: env_argument_def)

text \<open>
  Claim C5. For every accepted environment name (given with \<open>--env\<close>, or the default
  when the flag is omitted) the script calls the factory exactly once, with that name
  and the configuration mapping whose entries are exactly \<open>seed\<close> = 42 and
  \<open>num_players\<close> = 3; so does every call of \<open>run\<close>, whatever the library and the
  process-wide state are.
\<close>

theorem factory_gets_fixed_config:
  "(x \<in> set (arg_choices env_argument) \<longrightarrow>
      factory_calls (trace (snd (main L [Opt ''--env'' x] g))) =
        [(x, [(''seed'', PInt 42), (''num_players'', PInt 3)])]) \<and>
   factory_calls (trace (snd (main L [] g))) =
     [(''leduc-holdem'', [(''seed'', PInt 42), (''num_players'', PInt 3)])] \<and>
   factory_calls (trace (snd (run L a (start g')))) =
     [(env a, [(''seed'', PInt 42), (''num_players'', PInt 3)])]"
  by (simp add: main_def parse_args_env parse_args_default run_factory_calls start_def config_def)

theorem factory_gets_fixed_config_witness:
  "factory_calls (trace (snd (main toy_rlcard [Opt ''--env'' ''uno''] 7))) =
     [(''uno'', [(''seed'', PInt 42), (''num_players'', PInt 3)])]"
  using factory_gets_fixed_config [of "''uno''" toy_rlcard 7]
  by (simp add: env_argument_def)

text \<open>
  Claim C6. A run that returns normally has called \<open>env.run\<close> exactly once, with
  \<open>is_training=False\<close>; the value that call returned unpacks into exactly two
  components, the trajectories and the win record; and every event after the call is
  output of the script, so no library call follows it.
\<close>

theorem one_evaluation_episode:
  assumes "run L a (start g) = (Inr (), w')"
  shows "\<exists>pre env1 result trajectories player_wins post.
           trace w' = pre @ Run env1 False (Inr result) # post \<and>
           filter is_Run (trace w') = [Run env1 False (Inr result)] \<and>
           list_all (\<lambda>ev. \<not> is_Run ev) pre \<and>
           unpack2 result = Inr (trajectories, player_wins) \<and>
           list_all is_output post"
proof -
  from run_success [OF assms] obtain env0 agent1 agent2 env1 result trajectories player_wins
      raw_obs raw_legal_actions n0 n1 where
    u: "unpack2 result = Inr (trajectories, player_wins)" and
    t: "trace w' = trace (start g) @
       [Make (env a) config (Inr env0),
        SetSeed 42 (Inr ()),
        NewRandomAgent (env_num_actions L env0) (Inr agent1),
        NewRandomAgent (env_num_actions L env0) (Inr agent2),
        SetAgents env0 [agent1, agent2] (Inr env1),
        Run env1 False (Inr result),
        Print (PStr (CHR 0x0A # ''Trajectories:'')),
        Print trajectories,
        Print (PStr (CHR 0x0A # ''Sample raw observation:'')),
        PPrint raw_obs,
        Print (PStr (CHR 0x0A # ''Sample raw legal_actions:'')),
        PPrint raw_legal_actions,
        Print (PInt (int n0)),
        Print (PInt (int n1))]"
    by blast
  let ?pre = "[Make (env a) config (Inr env0),
        SetSeed 42 (Inr ()),
        NewRandomAgent (env_num_actions L env0) (Inr agent1),
        NewRandomAgent (env_num_actions L env0) (Inr agent2),
        SetAgents env0 [agent1, agent2] (Inr env1)]"
  let ?post = "[Print (PStr (CHR 0x0A # ''Trajectories:'')),
        Print trajectories,
        Print (PStr (CHR 0x0A # ''Sample raw observation:'')),
        PPrint raw_obs,
        Print (PStr (CHR 0x0A # ''Sample raw legal_actions:'')),
        PPrint raw_legal_actions,
        Print (PInt (int n0)),
        Print (PInt (int n1))]"
  have "trace w' = ?pre @ Run env1 False (Inr result) # ?post"
    using t by (simp add: start_def)
  moreover have "filter is_Run (trace w') = [Run env1 False (Inr result)]"
    using t by (simp add: start_def)
  moreover have "list_all (\<lambda>ev. \<not> is_Run ev) ?pre" by simp
  moreover have "list_all is_output ?post" by (simp add: is_output_def)
  ultimately show ?thesis using u by blast
qed

theorem one_evaluation_episode_witness:
  "\<exists>pre env1 result trajectories player_wins post.
     trace (snd (run toy_rlcard \<lparr>env = ''uno''\<rparr> (start 7))) =
       pre @ Run env1 False (Inr result) # post \<and>
     filter is_Run (trace (snd (run toy_rlcard \<lparr>env = ''uno''\<rparr> (start 7)))) =
       [Run env1 False (Inr result)] \<and>
     list_all (\<lambda>ev. \<not> is_Run ev) pre \<and>
     unpack2 result = Inr (trajectories, player_wins) \<and>
     list_all is_output post"
proof -
  have "fst (run toy_rlcard \<lparr>env = ''uno''\<rparr> (start 7)) = Inr ()"
    by (simp add: run_def and_then_def call_def expr_def emit_def start_def toy_rlcard_def
        env_argument_def unpack2_def seq_index_def)
  then have "run toy_rlcard \<lparr>env = ''uno''\<rparr> (start 7) =
      (Inr (), snd (run toy_rlcard \<lparr>env = ''uno''\<rparr> (start 7)))"
    by (simp add: prod_eq_iff)
  from one_evaluation_episode [OF this] show ?thesis .
qed

text \<open>
  Claim C7. The script adds exactly one argument to its parser: the flag \<open>--env\<close>, of
  string type, with default \<open>leduc-holdem\<close> and nine distinct choices. With the flag
  omitted the parsed value is the default; an option is accepted exactly when it is
  \<open>--env\<close> with one of the nine names, and any other flag is rejected; and whatever
  the command line, the parsed value is one of the nine names.
\<close>

theorem command_line_surface:
  "map arg_flag parser = [''--env''] \<and>
   map arg_type parser = [Str] \<and>
   map arg_default parser = [''leduc-holdem''] \<and>
   map arg_choices parser =
     [[''blackjack'', ''leduc-holdem'', ''limit-holdem'', ''doudizhu'', ''mahjong'',
       ''no-limit-holdem'', ''uno'', ''gin-rummy'', ''bridge'']] \<and>
   distinct (arg_choices env_argument) \<and>
   length (arg_choices env_argument) = 9 \<and>
   parse_args [] = Inr \<lparr>env = ''leduc-holdem''\<rparr> \<and>
   parse_args [Opt f x] =
     (if f = ''--env'' \<and>
         x \<in> {''blackjack'', ''leduc-holdem'', ''limit-holdem'', ''doudizhu'', ''mahjong'',
               ''no-limit-holdem'', ''uno'', ''gin-rummy'', ''bridge''}
      then Inr \<lparr>env = x\<rparr> else Inl (SystemExit 2)) \<and>
   (parse_args argv = Inr a \<longrightarrow>
      env a \<in> {''blackjack'', ''leduc-holdem'', ''limit-holdem'', ''doudizhu'', ''mahjong'',
                ''no-limit-holdem'', ''uno'', ''gin-rummy'', ''bridge''})"
proof -
  have "parse_args argv = Inr a \<longrightarrow>
      env a \<in> {''blackjack'', ''leduc-holdem'', ''limit-holdem'', ''doudizhu'', ''mahjong'',
                ''no-limit-holdem'', ''uno'', ''gin-rummy'', ''bridge''}"
    using parse_args_closed [of argv a] by (simp add: env_argument_def)
  moreover have "parse_args [Opt f x] =
     (if f = ''--env'' \<and>
         x \<in> {''blackjack'', ''leduc-holdem'', ''limit-holdem'', ''doudizhu'', ''mahjong'',
               ''no-limit-holdem'', ''uno'', ''gin-rummy'', ''bridge''}
      then Inr \<lparr>env = x\<rparr> else Inl (SystemExit 2))"
    by (simp add: parse_args_env) (simp add: env_argument_def)
  ultimately show ?thesis
    by (simp add: parse_args_default) (simp add: parser_def env_argument_def)
qed

theorem command_line_surface_witness:
  "parse_args [Opt ''--seed'' ''uno''] = Inl (SystemExit 2) \<and>
   parse_args [Opt ''--env'' ''poker''] = Inl (SystemExit 2) \<and>
   parse_args [Opt ''--env'' ''uno'', Opt ''--env'' ''bridge''] = Inr \<lparr>env = ''bridge''\<rparr> \<and>
   env \<lparr>env = ''bridge''\<rparr> \<in>
     {''blackjack'', ''leduc-holdem'', ''limit-holdem'', ''doudizhu'', ''mahjong'',
      ''no-limit-holdem'', ''uno'', ''gin-rummy'', ''bridge''}"
proof -
  have p: "parse_args [Opt ''--env'' ''uno'', Opt ''--env'' ''bridge''] = Inr \<lparr>env = ''bridge''\<rparr>"
    by (simp add: parse_args_def parser_def env_argument_def)
  from command_line_surface
    [where f = "''--seed''" and x = "''uno''"
       and argv = "[Opt ''--env'' ''uno'', Opt ''--env'' ''bridge'']" and a = "\<lparr>env = ''bridge''\<rparr>"]
    command_line_surface
    [where f = "''--env''" and x = "''poker''"
       and argv = "[Opt ''--env'' ''uno'', Opt ''--env'' ''bridge'']" and a = "\<lparr>env = ''bridge''\<rparr>"]
    p
  show ?thesis by simp
qed

text \<open>
  Claim C8. The printing phase indexes the result without any guard, so a run returns
  normally only when the trajectories returned by \<open>env.run\<close> have at least two
  entries (\<open>trajectories[0]\<close> and \<open>trajectories[1]\<close> both exist and have a
  length), the first entry is not empty, and its first event is a dictionary with the
  keys \<open>raw_obs\<close> and \<open>raw_legal_actions\<close>.
\<close>

theorem printing_needs_shape:
  assumes "run L a (start g) = (Inr (), w')"
  shows "\<exists>env1 result trajectories player_wins n t0 m kvs t1 k.
           Run env1 False (Inr result) \<in> set (trace w') \<and>
           unpack2 result = Inr (trajectories, player_wins) \<and>
           py_len trajectories = Inr n \<and> 2 \<le> n \<and>
           py_index trajectories 0 = Inr t0 \<and>
           py_len t0 = Inr m \<and> 1 \<le> m \<and>
           py_index t0 0 = Inr (PDict kvs) \<and>
           PStr ''raw_obs'' \<in> fst ` set kvs \<and>
           PStr ''raw_legal_actions'' \<in> fst ` set kvs \<and>
           py_index trajectories 1 = Inr t1 \<and>
           py_len t1 = Inr k"
proof -
  from run_success [OF assms] obtain env1 result trajectories player_wins t0 ev0
      raw_obs raw_legal_actions n0 t1 n1 where
    r: "Run env1 False (Inr result) \<in> set (trace w')" and
    u: "unpack2 result = Inr (trajectories, player_wins)" and
    i0: "py_index trajectories 0 = Inr t0" and
    i00: "py_index t0 0 = Inr ev0" and
    o: "py_item ev0 ''raw_obs'' = Inr raw_obs" and
    l: "py_item ev0 ''raw_legal_actions'' = Inr raw_legal_actions" and
    n0: "py_len t0 = Inr n0" and
    i1: "py_index trajectories 1 = Inr t1" and
    n1: "py_len t1 = Inr n1"
    by force
  from i0 i1 obtain n where n: "py_len trajectories = Inr n" "2 \<le> n"
    using py_index_two by blast
  from i00 n0 have m: "1 \<le> n0"
    using py_index_nonempty by force
  from o obtain kvs where kvs: "ev0 = PDict kvs" "map_of kvs (PStr ''raw_obs'') = Some raw_obs"
    using py_item_Inr by blast
  with l have "map_of kvs (PStr ''raw_legal_actions'') = Some raw_legal_actions"
    by (auto split: option.splits)
  with kvs have "PStr ''raw_obs'' \<in> fst ` set kvs" "PStr ''raw_legal_actions'' \<in> fst ` set kvs"
    by (auto dest!: map_of_SomeD intro: rev_image_eqI)
  with r u n i0 n0 m i00 kvs i1 n1 show ?thesis by blast
qed

theorem printing_needs_shape_witness:
  "\<exists>env1 result trajectories player_wins n t0 m kvs t1 k.
     Run env1 False (Inr result) \<in> set (trace (snd (run toy_rlcard \<lparr>env = ''uno''\<rparr> (start 7)))) \<and>
     unpack2 result = Inr (trajectories, player_wins) \<and>
     py_len trajectories = Inr n \<and> 2 \<le> n \<and>
     py_index trajectories 0 = Inr t0 \<and>
     py_len t0 = Inr m \<and> 1 \<le> m \<and>
     py_index t0 0 = Inr (PDict kvs) \<and>
     PStr ''raw_obs'' \<in> fst ` set kvs \<and>
     PStr ''raw_legal_actions'' \<in> fst ` set kvs \<and>
     py_index trajectories 1 = Inr t1 \<and>
     py_len t1 = Inr k"
proof -
  have "fst (run toy_rlcard \<lparr>env = ''uno''\<rparr> (start 7)) = Inr ()"
    by (simp add: run_def and_then_def call_def expr_def emit_def start_def toy_rlcard_def
        env_argument_def unpack2_def seq_index_def)
  then have "run toy_rlcard \<lparr>env = ''uno''\<rparr> (start 7) =
      (Inr (), snd (run toy_rlcard \<lparr>env = ''uno''\<rparr> (start 7)))"
    by (simp add: prod_eq_iff)
  from printing_needs_shape [OF this] show ?thesis .
qed

text \<open>
  Claim C9. The seed in the configuration of the factory call is 42, and the seeding
  utility is called with 42: once when the factory returned, and not at all when the
  factory raised (the run ends there). No other seed occurs in a run.
\<close>

theorem one_seed_for_both:
  "map (\<lambda>(n, c). map_of c ''seed'') (factory_calls (trace (snd (run L a (start g))))) =
     [Some (PInt 42)] \<and>
   seed_calls (trace (snd (run L a (start g)))) =
     (case fst (lib_make L (env a) config g) of Inl e \<Rightarrow> [] | Inr env0 \<Rightarrow> [42])"
  by (simp add: run_factory_calls run_seed_calls start_def) (simp add: config_def)

theorem one_seed_for_both_witness:
  "map (\<lambda>(n, c). map_of c ''seed'')
     (factory_calls (trace (snd (run toy_rlcard \<lparr>env = ''uno''\<rparr> (start 7))))) = [Some (PInt 42)] \<and>
   seed_calls (trace (snd (run toy_rlcard \<lparr>env = ''uno''\<rparr> (start 7)))) = [42]"
  using one_seed_for_both [of toy_rlcard "\<lparr>env = ''uno''\<rparr>" 7]
  by (simp add: toy_rlcard_def env_argument_def)

text \<open>
  Claim C10. For any two accepted values of \<open>--env\<close> (and any library and
  process-wide state) the factory is called with the same configuration; the calls
  differ only in the name, which is the value given on the command line.
\<close>

theorem config_independent_of_name:
  assumes "x \<in> set (arg_choices env_argument)" and "y \<in> set (arg_choices env_argument)"
  shows "map snd (factory_calls (trace (snd (main L [Opt ''--env'' x] g)))) =
         map snd (factory_calls (trace (snd (main L' [Opt ''--env'' y] g')))) \<and>
         map fst (factory_calls (trace (snd (main L [Opt ''--env'' x] g)))) = [x] \<and>
         map fst (factory_calls (trace (snd (main L' [Opt ''--env'' y] g')))) = [y]"
  using assms by (simp add: main_def parse_args_env run_factory_calls start_def)

theorem config_independent_of_name_witness:
  "map snd (factory_calls (trace (snd (main toy_rlcard [Opt ''--env'' ''uno''] 7)))) =
   map snd (factory_calls (trace (snd (main toy_rlcard [Opt ''--env'' ''bridge''] 0)))) \<and>
   map fst (factory_calls (trace (snd (main toy_rlcard [Opt ''--env'' ''uno''] 7)))) = [''uno''] \<and>
   map fst (factory_calls (trace (snd (main toy_rlcard [Opt ''--env'' ''bridge''] 0)))) = [''bridge'']"
  using config_independent_of_name [of "''uno''" "''bridge''" toy_rlcard 7 toy_rlcard 0]
  by (simp add: env_argument_def)

end
